theory Spec2Isabelle
  imports Main "HOL-Library.Multiset"
begin

section \<open>vite-plugin-frontmatter-collection: a shallow embedding of src/index.ts\<close>

subsection \<open>Values, thrown values and the collection configuration\<close>

text \<open>
  The frontmatter of a file is typed \<^verbatim>\<open>{ [key: string]: any; filePath: string }\<close>.
  A JavaScript value is modelled by \<open>jsval\<close> (numbers as integers); an object is the list
  of its own properties in insertion order, with distinct keys (the place JavaScript gives
  to integer-like keys, before the others, is not modelled).
\<close>

datatype jsval =
    JNull
  | JBool bool
  | JNum int
  | JStr string
  | JArr "jsval list"
  | JObj "(string \<times> jsval) list"

type_synonym jsobject = "(string \<times> jsval) list"

text \<open>
  What a \<^verbatim>\<open>throw\<close> carries: an \<^verbatim>\<open>Error\<close> with its message (the branch
  \<^verbatim>\<open>error instanceof Error\<close> of the source) or any other value.
\<close>

datatype thrown = Error string | Thrown jsval

text \<open>A Zod schema: its \<^verbatim>\<open>parse\<close> method returns the entry or throws.\<close>

datatype 'e ZodSchema = ZodSchema (parse: "jsobject \<Rightarrow> thrown + 'e")

text \<open>The option \<^verbatim>\<open>ignore?: string | string[]\<close>.\<close>

datatype ignore_pattern = IgnoreString string | IgnoreArray "string list"

text \<open>
  \<^verbatim>\<open>FrontmatterCollectionConfig<T>\<close> (lines 9 to 81). An optional field is an
  \<open>option\<close>. The fields \<^verbatim>\<open>include\<close>, \<^verbatim>\<open>sort\<close> and \<^verbatim>\<open>filter\<close> are
  suffixed: the first is a keyword of Isabelle, the others are constants of HOL.
\<close>

record 'e FrontmatterCollectionConfig =
  name :: string
  include_glob :: string
  parseFrontMatter :: "(jsobject \<Rightarrow> thrown + 'e) option"
  schema :: "'e ZodSchema option"
  sort_fn :: "('e \<Rightarrow> 'e \<Rightarrow> int) option"
  filter_fn :: "('e \<Rightarrow> bool) option"
  ignore :: "ignore_pattern option"

subsection \<open>The libraries the plugin calls\<close>

text \<open>
  The functions of node, glob, gray-matter, zod-to-ts and the JSON object are parameters
  of the model. \<^verbatim>\<open>readFileSync\<close> and \<^verbatim>\<open>matter\<close> can throw.
\<close>

record ('e, 'n) libraries =
  globSync :: "string \<Rightarrow> ignore_pattern option \<Rightarrow> string list"
  readFileSync :: "string \<Rightarrow> thrown + string"
  matter :: "string \<Rightarrow> thrown + jsobject"
  JSON_stringify :: "'e list \<Rightarrow> string"
  zodToTs :: "'e ZodSchema \<Rightarrow> string \<Rightarrow> 'n"
  printNode :: "'n \<Rightarrow> string"
  path_join :: "string \<Rightarrow> string \<Rightarrow> string"

text \<open>
  What the plugin does to the outside, in the order it does it: the calls of the matcher
  and of the file reader, and the lines written to the console. The two
  \<^verbatim>\<open>console.error\<close> calls of the source print the text
  \<^verbatim>\<open>Error parsing frontmatter in ${file}\<close> after a pictogram, which the model leaves out.
\<close>

datatype effect =
    GlobSync string "ignore_pattern option"
  | ReadFileSync string
  | ConsoleLogDebug string jsobject
  | ConsoleError string jsval
  | ConsoleLogCollected nat nat string

subsection \<open>Strings and arrays of JavaScript\<close>

text \<open>\<^verbatim>\<open>s.replace(/\\/g, "/")\<close>: every backslash (0x5C) becomes a slash (0x2F).\<close>

definition globsafe :: "string \<Rightarrow> string" where
  "globsafe s = map (\<lambda>ch. if ch = CHR 0x5C then CHR 0x2F else ch) s"

text \<open>\<^verbatim>\<open>String.prototype.endsWith\<close>.\<close>

definition endsWith :: "string \<Rightarrow> string \<Rightarrow> bool" where
  "endsWith s t \<longleftrightarrow> length t \<le> length s \<and> drop (length s - length t) s = t"

text \<open>\<^verbatim>\<open>Array.prototype.join\<close>.\<close>

fun join :: "string \<Rightarrow> string list \<Rightarrow> string" where
  "join sep [] = []"
| "join sep [x] = x"
| "join sep (x # y # ys) = x @ sep @ join sep (y # ys)"

text \<open>
  Setting a property of an object: an existing key keeps its place and takes the new
  value, a new key goes last.
\<close>

fun obj_set :: "string \<Rightarrow> jsval \<Rightarrow> jsobject \<Rightarrow> jsobject" where
  "obj_set k v [] = [(k, v)]"
| "obj_set k v ((k', v') # ps) =
     (if k = k' then (k, v) # ps else (k', v') # obj_set k v ps)"

text \<open>The spread \<^verbatim>\<open>{ ...target, ...source }\<close>: the properties of the source are set in order.\<close>

definition spread :: "jsobject \<Rightarrow> jsobject \<Rightarrow> jsobject" where
  "spread target source = foldl (\<lambda>obj (k, v). obj_set k v obj) target source"

text \<open>Reading a property.\<close>

definition obj_get :: "jsobject \<Rightarrow> string \<Rightarrow> jsval option" where
  "obj_get obj k = map_of obj k"

text \<open>
  \<^verbatim>\<open>Array.prototype.sort(comparefn)\<close>: a stable sort (ECMAScript 2019) that puts \<open>b\<close>
  before \<open>a\<close> when \<open>comparefn a b > 0\<close>. It is modelled by a stable insertion sort: each
  element, from the last to the first, is inserted into the sorted rest and passes only
  the elements that the comparator puts before it.
\<close>

fun sort_insert :: "('a \<Rightarrow> 'a \<Rightarrow> int) \<Rightarrow> 'a \<Rightarrow> 'a list \<Rightarrow> 'a list" where
  "sort_insert cmp x [] = [x]"
| "sort_insert cmp x (y # ys) =
     (if 0 < cmp x y then y # sort_insert cmp x ys else x # y # ys)"

definition Array_sort :: "('a \<Rightarrow> 'a \<Rightarrow> int) \<Rightarrow> 'a list \<Rightarrow> 'a list" where
  "Array_sort cmp xs = foldr (sort_insert cmp) xs []"

subsection \<open>collectFrontmatterEntries (lines 140 to 200)\<close>

definition missingContractMessage :: "string \<Rightarrow> string" where
  "missingContractMessage n =
     ''You must provide a schema or a parseFrontMatter function for the collection '' @ n"

definition parseErrorText :: "string \<Rightarrow> string" where
  "parseErrorText file = ''Error parsing frontmatter in '' @ file"

text \<open>
  The second argument of \<^verbatim>\<open>console.error\<close> in a \<^verbatim>\<open>catch\<close> block: the message of
  an \<^verbatim>\<open>Error\<close>, any other thrown value as it is.
\<close>

fun errorArgument :: "thrown \<Rightarrow> jsval" where
  "errorArgument (Error message) = JStr message"
| "errorArgument (Thrown v) = v"

text \<open>Lines 155 to 161: \<^verbatim>\<open>{ filePath: file, ...data }\<close>.\<close>

definition frontmatterOf :: "string \<Rightarrow> jsobject \<Rightarrow> jsobject" where
  "frontmatterOf file data = spread [(''filePath'', JStr file)] data"

text \<open>Lines 154 to 161: read the file, extract its metadata block, build the frontmatter.\<close>

definition readFrontmatter :: "('e, 'n) libraries \<Rightarrow> string \<Rightarrow> thrown + jsobject" where
  "readFrontmatter lib file =
     (case readFileSync lib file of
        Inl err \<Rightarrow> Inl err
      | Inr text \<Rightarrow>
          (case matter lib text of
             Inl err \<Rightarrow> Inl err
           | Inr data \<Rightarrow> Inr (frontmatterOf file data)))"

text \<open>
  The loop of lines 153 to 192 over the matched files, with the entries pushed so far and
  the effects so far. An exception of \<^verbatim>\<open>readFileSync\<close> or \<^verbatim>\<open>matter\<close> is outside
  both \<^verbatim>\<open>try\<close> blocks and leaves the loop.
\<close>

fun collectLoop ::
  "('e, 'n) libraries \<Rightarrow> bool \<Rightarrow> 'e FrontmatterCollectionConfig \<Rightarrow> string list \<Rightarrow>
   'e list \<Rightarrow> effect list \<Rightarrow> (thrown + 'e list) \<times> effect list" where
  "collectLoop lib debug collection [] entries fx = (Inr entries, fx)"
| "collectLoop lib debug collection (file # files) entries fx =
     (case readFrontmatter lib file of
        Inl err \<Rightarrow> (Inl err, fx @ [ReadFileSync file])
      | Inr frontmatter \<Rightarrow>
          (let fx1 = fx @ [ReadFileSync file] @
                 (if debug then [ConsoleLogDebug file frontmatter] else [])
           in case schema collection of
                Some s \<Rightarrow>
                  (case parse s frontmatter of
                     Inr entry \<Rightarrow> collectLoop lib debug collection files (entries @ [entry]) fx1
                   | Inl error \<Rightarrow>
                       collectLoop lib debug collection files entries
                         (fx1 @ [ConsoleError (parseErrorText file) (errorArgument error)]))
              | None \<Rightarrow>
                  (case parseFrontMatter collection of
                     Some p \<Rightarrow>
                       (case p frontmatter of
                          Inr entry \<Rightarrow>
                            collectLoop lib debug collection files (entries @ [entry]) fx1
                        | Inl error \<Rightarrow>
                            collectLoop lib debug collection files entries
                              (fx1 @ [ConsoleError (parseErrorText file) (errorArgument error)]))
                   | None \<Rightarrow> collectLoop lib debug collection files entries fx1)))"

definition collectFrontmatterEntries ::
  "('e, 'n) libraries \<Rightarrow> bool \<Rightarrow> 'e FrontmatterCollectionConfig \<Rightarrow> effect list \<Rightarrow>
   (thrown + 'e list) \<times> effect list" where
  "collectFrontmatterEntries lib debug collection fx =
     (if schema collection = None \<and> parseFrontMatter collection = None
      then (Inl (Error (missingContractMessage (name collection))), fx)
      else
        (let allFiles = globSync lib (globsafe (include_glob collection)) (ignore collection);
             fx0 = fx @ [GlobSync (globsafe (include_glob collection)) (ignore collection)]
         in case collectLoop lib debug collection allFiles [] fx0 of
              (Inl err, fx1) \<Rightarrow> (Inl err, fx1)
            | (Inr entries, fx1) \<Rightarrow>
                (let sorted_entries =
                       (case sort_fn collection of
                          Some cmp \<Rightarrow> Array_sort cmp entries
                        | None \<Rightarrow> entries)
                 in (Inr sorted_entries,
                     fx1 @ [ConsoleLogCollected (length sorted_entries) (length allFiles)
                              (name collection)]))))"

subsection \<open>refreshVirtualModuleContent (lines 202 to 213) and the hooks\<close>

definition virtualModuleId :: string where
  "virtualModuleId = ''virtual:frontmatter-collection''"

definition resolvedVirtualModuleId :: "string \<Rightarrow> string" where
  "resolvedVirtualModuleId ident = CHR 0x00 # ident"

definition newline :: string where
  "newline = [CHR 0x0A]"

text \<open>The plugin's variable \<^verbatim>\<open>virtualModuleExports\<close> and the effects so far.\<close>

record plugin_state =
  virtualModuleExports :: "string option"
  effects :: "effect list"

text \<open>Line 207: the template of one export statement.\<close>

definition exportStatement :: "('e, 'n) libraries \<Rightarrow> string \<Rightarrow> 'e list \<Rightarrow> string" where
  "exportStatement lib n entries =
     ''export const '' @ n @ '' = '' @ JSON_stringify lib entries @ '';''"

fun refreshLoop ::
  "('e, 'n) libraries \<Rightarrow> bool \<Rightarrow> 'e FrontmatterCollectionConfig list \<Rightarrow> string list \<Rightarrow>
   effect list \<Rightarrow> (thrown + string list) \<times> effect list" where
  "refreshLoop lib debug [] exportedEntries fx = (Inr exportedEntries, fx)"
| "refreshLoop lib debug (collection # collections) exportedEntries fx =
     (case collectFrontmatterEntries lib debug collection fx of
        (Inl err, fx1) \<Rightarrow> (Inl err, fx1)
      | (Inr entries, fx1) \<Rightarrow>
          refreshLoop lib debug collections
            (exportedEntries @ [exportStatement lib (name collection) entries]) fx1)"

definition refreshVirtualModuleContent ::
  "('e, 'n) libraries \<Rightarrow> bool \<Rightarrow> 'e FrontmatterCollectionConfig list \<Rightarrow> plugin_state \<Rightarrow>
   (thrown + string) \<times> plugin_state" where
  "refreshVirtualModuleContent lib debug collections st =
     (case refreshLoop lib debug collections [] (effects st) of
        (Inl err, fx1) \<Rightarrow> (Inl err, st\<lparr>effects := fx1\<rparr>)
      | (Inr exportedEntries, fx1) \<Rightarrow>
          (let body = join newline exportedEntries
           in (Inr body, st\<lparr>virtualModuleExports := Some body, effects := fx1\<rparr>)))"

text \<open>Lines 239 to 243. \<open>None\<close> is the \<^verbatim>\<open>undefined\<close> of a hook that declines.\<close>

definition resolveId :: "string \<Rightarrow> string option" where
  "resolveId ident =
     (if ident = virtualModuleId then Some (resolvedVirtualModuleId virtualModuleId) else None)"

text \<open>Lines 244 to 248.\<close>

definition load ::
  "('e, 'n) libraries \<Rightarrow> bool \<Rightarrow> 'e FrontmatterCollectionConfig list \<Rightarrow> string \<Rightarrow>
   plugin_state \<Rightarrow> (thrown + string option) \<times> plugin_state" where
  "load lib debug collections ident st =
     (if ident = resolvedVirtualModuleId virtualModuleId
      then (case refreshVirtualModuleContent lib debug collections st of
              (Inl err, st1) \<Rightarrow> (Inl err, st1)
            | (Inr body, st1) \<Rightarrow> (Inr (Some body), st1))
      else (Inr None, st))"

subsection \<open>configResolved (lines 217 to 238)\<close>

fun declarationLoop ::
  "('e, 'n) libraries \<Rightarrow> 'e FrontmatterCollectionConfig list \<Rightarrow> string list \<Rightarrow> string list" where
  "declarationLoop lib [] ambientDeclarations = ambientDeclarations"
| "declarationLoop lib (collection # collections) ambientDeclarations =
     (case schema collection of
        Some s \<Rightarrow>
          declarationLoop lib collections
            (ambientDeclarations @
               [''export const '' @ name collection @ '': '' @
                printNode lib (zodToTs lib s (name collection)) @ ''[];''])
      | None \<Rightarrow> declarationLoop lib collections ambientDeclarations)"

definition ambientDeclarationsString :: "string list \<Rightarrow> string" where
  "ambientDeclarationsString ambientDeclarations =
     ''// This file is auto-generated. Do not edit manually.'' @ newline @
     ''declare module '' @ [CHR 0x22] @ ''virtual:frontmatter-collection'' @ [CHR 0x22] @
     '' {'' @ newline @
     join newline ambientDeclarations @ newline @
     ''}'' @ newline"

text \<open>
  The hook, on a store of files (path to contents) that \<^verbatim>\<open>writeFileSync\<close> updates.
  An empty \<^verbatim>\<open>typesPath\<close> is falsy and gives the default name.
\<close>

definition configResolved ::
  "('e, 'n) libraries \<Rightarrow> bool \<Rightarrow> string option \<Rightarrow> 'e FrontmatterCollectionConfig list \<Rightarrow>
   string \<Rightarrow> (string \<rightharpoonup> string) \<Rightarrow> (string \<rightharpoonup> string)" where
  "configResolved lib generateDTS typesPath collections root files =
     (if \<not> generateDTS then files
      else
        (let ambientDeclarations = declarationLoop lib collections [];
             declarationFullPath =
               path_join lib root
                 (case typesPath of
                    Some p \<Rightarrow> if p \<noteq> [] then p else ''frontmatter-collection.d.ts''
                  | None \<Rightarrow> ''frontmatter-collection.d.ts'')
         in files(declarationFullPath \<mapsto> ambientDeclarationsString ambientDeclarations)))"

subsection \<open>handleHotUpdate (lines 249 to 260)\<close>

text \<open>
  The module graph of the server: the nodes by id, each with the flag that
  \<^verbatim>\<open>invalidateModule\<close> sets. A node is an object that the graph and the hook share; the
  model refers to it by the id under which the graph holds it.
\<close>

record module_node =
  stale :: bool

record dev_server =
  moduleGraph :: "string \<rightharpoonup> module_node"

definition getModuleById :: "dev_server \<Rightarrow> string \<Rightarrow> string option" where
  "getModuleById server ident =
     (case moduleGraph server ident of Some node \<Rightarrow> Some ident | None \<Rightarrow> None)"

definition invalidateModule :: "dev_server \<Rightarrow> string \<Rightarrow> dev_server" where
  "invalidateModule server m =
     server\<lparr>moduleGraph :=
       (\<lambda>ident. if ident = m
                 then map_option (\<lambda>node. node\<lparr>stale := True\<rparr>) (moduleGraph server ident)
                 else moduleGraph server ident)\<rparr>"

definition handleHotUpdate ::
  "dev_server \<Rightarrow> string \<Rightarrow> 'm list \<Rightarrow> 'm list \<times> dev_server" where
  "handleHotUpdate server file modules =
     (if \<not> endsWith file ''.mdx'' then (modules, server)
      else
        (case getModuleById server (resolvedVirtualModuleId virtualModuleId) of
           Some virtualModule \<Rightarrow> (modules, invalidateModule server virtualModule)
         | None \<Rightarrow> (modules, server)))"

subsection \<open>Notions used to state the properties\<close>

text \<open>
  The contract a collection applies to each frontmatter: the schema's \<^verbatim>\<open>parse\<close> when
  there is a schema, otherwise \<^verbatim>\<open>parseFrontMatter\<close> (the \<^verbatim>\<open>if\<close> / \<^verbatim>\<open>else if\<close> of
  lines 163 and 177).
\<close>

definition contract ::
  "'e FrontmatterCollectionConfig \<Rightarrow> (jsobject \<Rightarrow> thrown + 'e) option" where
  "contract collection =
     (case schema collection of
        Some s \<Rightarrow> Some (parse s)
      | None \<Rightarrow> parseFrontMatter collection)"

text \<open>A file whose frontmatter the contract \<open>f\<close> rejects (it throws).\<close>

definition fileFails ::
  "('e, 'n) libraries \<Rightarrow> (jsobject \<Rightarrow> thrown + 'e) \<Rightarrow> string \<Rightarrow> bool" where
  "fileFails lib f file =
     (case readFrontmatter lib file of
        Inr frontmatter \<Rightarrow> isl (f frontmatter)
      | Inl err \<Rightarrow> False)"

text \<open>
  What the contract \<open>f\<close> makes of the files, in their order: the entry of each file whose
  frontmatter it accepts.
\<close>

definition entriesOfContract ::
  "('e, 'n) libraries \<Rightarrow> (jsobject \<Rightarrow> thrown + 'e) \<Rightarrow> string list \<Rightarrow> 'e list" where
  "entriesOfContract lib f files =
     List.map_filter
       (\<lambda>file. case readFrontmatter lib file of
                  Inr frontmatter \<Rightarrow>
                    (case f frontmatter of Inr entry \<Rightarrow> Some entry | Inl err \<Rightarrow> None)
                | Inl err \<Rightarrow> None)
       files"

fun isConsoleError :: "effect \<Rightarrow> bool" where
  "isConsoleError (ConsoleError text arg) = True"
| "isConsoleError other = False"

text \<open>
  A consistent comparator on the values \<open>S\<close>, as ECMAScript asks of the argument of
  \<^verbatim>\<open>sort\<close>: \<open>b\<close> is wanted before \<open>a\<close> exactly when \<open>a\<close> is wanted after \<open>b\<close>, and
  "not after" is transitive.
\<close>

definition consistent_comparator :: "'a set \<Rightarrow> ('a \<Rightarrow> 'a \<Rightarrow> int) \<Rightarrow> bool" where
  "consistent_comparator S cmp \<longleftrightarrow>
     (\<forall>a\<in>S. \<forall>b\<in>S. (0 < cmp a b) = (cmp b a < 0)) \<and>
     (\<forall>a\<in>S. \<forall>b\<in>S. \<forall>c\<in>S. cmp a b \<le> 0 \<longrightarrow> cmp b c \<le> 0 \<longrightarrow> cmp a c \<le> 0)"

subsection \<open>A small project, for concrete runs\<close>

text \<open>
  Four posts and one page. The post \<open>b\<close> has a rank that is not a number, the post \<open>c\<close>
  is not published, the posts \<open>a\<close> and \<open>d\<close> have the same rank, and the page sets a
  \<open>filePath\<close> key of its own. The text of a file is its metadata block.
\<close>

definition demo_disk :: "(string \<times> string) list" where
  "demo_disk =
     [(''posts/a.mdx'', ''rank: 1, published: true''),
      (''posts/b.mdx'', ''rank: high, published: true''),
      (''posts/c.mdx'', ''rank: 2, published: false''),
      (''posts/d.mdx'', ''rank: 1, published: true, pinned: true''),
      (''pages/home.mdx'', ''title: Home, filePath: /''),
      (''pages/about.mdx'', ''title: About'')]"

definition demo_blocks :: "(string \<times> jsobject) list" where
  "demo_blocks =
     [(''rank: 1, published: true'', [(''rank'', JNum 1), (''published'', JBool True)]),
      (''rank: high, published: true'', [(''rank'', JStr ''high''), (''published'', JBool True)]),
      (''rank: 2, published: false'', [(''rank'', JNum 2), (''published'', JBool False)]),
      (''rank: 1, published: true, pinned: true'',
         [(''rank'', JNum 1), (''published'', JBool True), (''pinned'', JBool True)]),
      (''title: Home, filePath: /'', [(''title'', JStr ''Home''), (''filePath'', JStr ''/'')]),
      (''title: About'', [(''title'', JStr ''About'')])]"

text \<open>
  The stand-in for \<^verbatim>\<open>JSON.stringify\<close> prints the \<open>filePath\<close> of each entry only, the
  stand-in for zod-to-ts prints one fixed type.
\<close>

definition demo_stringify :: "jsobject list \<Rightarrow> string" where
  "demo_stringify entries =
     ''['' @ join '','' (map (\<lambda>e. case obj_get e ''filePath'' of
                                    Some (JStr p) \<Rightarrow> p
                                  | other \<Rightarrow> ''?'') entries) @ '']''"

definition demo_lib :: "(jsobject, string) libraries" where
  "demo_lib =
     \<lparr> globSync = (\<lambda>pattern ign.
         if pattern = ''posts/*.mdx''
         then [''posts/a.mdx'', ''posts/b.mdx'', ''posts/c.mdx'', ''posts/d.mdx'']
         else if pattern = ''pages/*.mdx'' then [''pages/home.mdx'', ''pages/about.mdx'']
         else []),
       readFileSync = (\<lambda>file.
         case map_of demo_disk file of
           Some text \<Rightarrow> Inr text
         | None \<Rightarrow> Inl (Error (''ENOENT: no such file or directory, open '' @ file))),
       matter = (\<lambda>text.
         case map_of demo_blocks text of
           Some data \<Rightarrow> Inr data
         | None \<Rightarrow> Inr []),
       JSON_stringify = demo_stringify,
       zodToTs = (\<lambda>s n. ''{ rank: number; filePath: string; }''),
       printNode = (\<lambda>node. node),
       path_join = (\<lambda>root p. root @ ''/'' @ p) \<rparr>"

definition rank_of :: "jsobject \<Rightarrow> int option" where
  "rank_of e = (case obj_get e ''rank'' of Some (JNum n) \<Rightarrow> Some n | other \<Rightarrow> None)"

text \<open>The schema accepts a frontmatter whose \<open>rank\<close> is a number and returns it as it is.\<close>

definition demo_schema :: "jsobject ZodSchema" where
  "demo_schema =
     ZodSchema (\<lambda>frontmatter.
       case rank_of frontmatter of
         Some n \<Rightarrow> Inr frontmatter
       | None \<Rightarrow> Inl (Error ''rank: expected number''))"

text \<open>Higher rank first, as the \<^verbatim>\<open>sort\<close> example of the source puts later dates first.\<close>

definition demo_cmp :: "jsobject \<Rightarrow> jsobject \<Rightarrow> int" where
  "demo_cmp a b =
     (case (rank_of a, rank_of b) of
        (Some x, Some y) \<Rightarrow> if y < x then - 1 else if x = y then 0 else 1
      | other \<Rightarrow> 0)"

definition demo_published :: "jsobject \<Rightarrow> bool" where
  "demo_published e \<longleftrightarrow> obj_get e ''published'' = Some (JBool True)"

definition posts :: "jsobject FrontmatterCollectionConfig" where
  "posts =
     \<lparr> name = ''posts'',
       include_glob = ''posts'' @ [CHR 0x5C] @ ''*.mdx'',
       parseFrontMatter = None,
       schema = Some demo_schema,
       sort_fn = Some demo_cmp,
       filter_fn = Some demo_published,
       ignore = Some (IgnoreString (''posts'' @ [CHR 0x5C] @ ''drafts'' @ [CHR 0x5C] @ ''**'')) \<rparr>"

definition pages :: "jsobject FrontmatterCollectionConfig" where
  "pages =
     \<lparr> name = ''pages'',
       include_glob = ''pages/*.mdx'',
       parseFrontMatter = Some (\<lambda>frontmatter. Inr frontmatter),
       schema = None,
       sort_fn = None,
       filter_fn = None,
       ignore = None \<rparr>"

text \<open>A collection with neither a schema nor a parse function.\<close>

definition drafts :: "jsobject FrontmatterCollectionConfig" where
  "drafts =
     \<lparr> name = ''drafts'',
       include_glob = ''posts/*.mdx'',
       parseFrontMatter = None,
       schema = None,
       sort_fn = None,
       filter_fn = None,
       ignore = None \<rparr>"

definition initial_state :: plugin_state where
  "initial_state = \<lparr> virtualModuleExports = None, effects = [] \<rparr>"

text \<open>A server whose graph holds the virtual module and one other module, both fresh.\<close>

definition demo_server :: dev_server where
  "demo_server =
     \<lparr> moduleGraph =
         [resolvedVirtualModuleId virtualModuleId \<mapsto> \<lparr> stale = False \<rparr>,
          ''/src/main.ts'' \<mapsto> \<lparr> stale = False \<rparr>] \<rparr>"

text \<open>The module body of the collections \<open>posts\<close> and \<open>pages\<close>, under the stand-in serializer.\<close>

definition demo_body :: string where
  "demo_body =
     ''export const posts = [posts/c.mdx,posts/a.mdx,posts/d.mdx];'' @ newline @
     ''export const pages = [/,pages/about.mdx];''"

definition page_home :: jsobject where
  "page_home = [(''filePath'', JStr ''/''), (''title'', JStr ''Home'')]"

definition page_about :: jsobject where
  "page_about = [(''filePath'', JStr ''pages/about.mdx''), (''title'', JStr ''About'')]"

definition post_a :: jsobject where
  "post_a = [(''filePath'', JStr ''posts/a.mdx''), (''rank'', JNum 1), (''published'', JBool True)]"

definition post_c :: jsobject where
  "post_c = [(''filePath'', JStr ''posts/c.mdx''), (''rank'', JNum 2), (''published'', JBool False)]"

definition post_d :: jsobject where
  "post_d = [(''filePath'', JStr ''posts/d.mdx''), (''rank'', JNum 1), (''published'', JBool True),
             (''pinned'', JBool True)]"

section \<open>Properties\<close>

subsection \<open>Evaluating the small project\<close>

lemmas demo_defs =
  demo_lib_def demo_disk_def demo_blocks_def demo_schema_def demo_cmp_def rank_of_def
  demo_stringify_def demo_published_def posts_def pages_def drafts_def
  post_a_def post_c_def post_d_def page_home_def page_about_def
  obj_get_def readFrontmatter_def frontmatterOf_def spread_def globsafe_def parseErrorText_def
  Array_sort_def

lemma posts_compiled:
  "collectFrontmatterEntries demo_lib False posts [] =
     (Inr [post_c, post_a, post_d],
      [GlobSync ''posts/*.mdx''
         (Some (IgnoreString (''posts'' @ [CHR 0x5C] @ ''drafts'' @ [CHR 0x5C] @ ''**''))),
       ReadFileSync ''posts/a.mdx'',
       ReadFileSync ''posts/b.mdx'',
       ConsoleError ''Error parsing frontmatter in posts/b.mdx'' (JStr ''rank: expected number''),
       ReadFileSync ''posts/c.mdx'',
       ReadFileSync ''posts/d.mdx'',
       ConsoleLogCollected 3 4 ''posts''])"
  by (simp add: collectFrontmatterEntries_def demo_defs)

lemma pages_compiled:
  "collectFrontmatterEntries demo_lib False pages [] =
     (Inr [page_home, page_about],
      [GlobSync ''pages/*.mdx'' None,
       ReadFileSync ''pages/home.mdx'',
       ReadFileSync ''pages/about.mdx'',
       ConsoleLogCollected 2 2 ''pages''])"
  by (simp add: collectFrontmatterEntries_def demo_defs)

subsection \<open>The loop over the matched files\<close>

lemma collectLoop_fst_effects:
  "fst (collectLoop lib debug c files entries fx) = fst (collectLoop lib debug' c files entries fx')"
  by (cases debug; cases debug'; induction files arbitrary: entries fx fx'; simp split: sum.splits option.splits add: Let_def)

lemma collectLoop_step:
  assumes "contract c = Some f" and "readFrontmatter lib file = Inr fm"
  shows "collectLoop lib debug c (file # files) entries fx =
     (case f fm of
        Inr entry \<Rightarrow>
          collectLoop lib debug c files (entries @ [entry])
            (fx @ ReadFileSync file # (if debug then [ConsoleLogDebug file fm] else []))
      | Inl error \<Rightarrow>
          collectLoop lib debug c files entries
            (fx @ ReadFileSync file # (if debug then [ConsoleLogDebug file fm] else []) @
               [ConsoleError (parseErrorText file) (errorArgument error)]))"
  using assms by (auto simp: contract_def Let_def split: option.splits sum.splits)

lemma collectLoop_contract:
  assumes "contract c = Some f"
    and "\<forall>file\<in>set files. \<exists>fm. readFrontmatter lib file = Inr fm"
  shows "\<exists>es fx'. collectLoop lib debug c files entries fx = (Inr (entries @ es), fx @ fx') \<and>
      length es + length (filter (fileFails lib f) files) = length files \<and>
      list_all2 (\<lambda>e file. \<exists>fm err. readFrontmatter lib file = Inr fm \<and> f fm = Inl err \<and>
                   e = ConsoleError (parseErrorText file) (errorArgument err))
        (filter isConsoleError fx') (filter (fileFails lib f) files)"
  using assms(2)
proof (induction files arbitrary: entries fx)
  case Nil
  show ?case by simp
next
  case (Cons path files)
  from Cons.prems obtain fm where fm: "readFrontmatter lib path = Inr fm" by auto
  have rest: "\<forall>file\<in>set files. \<exists>fm. readFrontmatter lib file = Inr fm" using Cons.prems by simp
  let ?dbg = "if debug then [ConsoleLogDebug path fm] else []"
  have dbg: "filter isConsoleError ?dbg = []" by simp
  show ?case
  proof (cases "f fm")
    case (Inr entry)
    from Cons.IH[OF rest, of "entries @ [entry]" "fx @ ReadFileSync path # ?dbg"]
    obtain es fx' where h:
      "collectLoop lib debug c files (entries @ [entry]) (fx @ ReadFileSync path # ?dbg)
         = (Inr ((entries @ [entry]) @ es), (fx @ ReadFileSync path # ?dbg) @ fx')"
      "length es + length (filter (fileFails lib f) files) = length files"
      "list_all2 (\<lambda>e file. \<exists>fm err. readFrontmatter lib file = Inr fm \<and> f fm = Inl err \<and>
                   e = ConsoleError (parseErrorText file) (errorArgument err))
        (filter isConsoleError fx') (filter (fileFails lib f) files)"
      by blast
    have nf: "\<not> fileFails lib f path" using fm Inr by (simp add: fileFails_def)
    have "collectLoop lib debug c (path # files) entries fx
          = (Inr (entries @ (entry # es)), fx @ (ReadFileSync path # ?dbg @ fx'))"
      using collectLoop_step[OF assms(1) fm, of debug files entries fx] Inr h(1) by simp
    moreover have "length (entry # es) + length (filter (fileFails lib f) (path # files)) = length (path # files)"
      using h(2) nf by simp
    moreover have "list_all2 (\<lambda>e file. \<exists>fm err. readFrontmatter lib file = Inr fm \<and> f fm = Inl err \<and>
                   e = ConsoleError (parseErrorText file) (errorArgument err))
        (filter isConsoleError (ReadFileSync path # ?dbg @ fx')) (filter (fileFails lib f) (path # files))"
      using h(3) nf by simp
    ultimately show ?thesis by blast
  next
    case (Inl err)
    let ?ce = "ConsoleError (parseErrorText path) (errorArgument err)"
    from Cons.IH[OF rest, of entries "fx @ ReadFileSync path # ?dbg @ [?ce]"]
    obtain es fx' where h:
      "collectLoop lib debug c files entries (fx @ ReadFileSync path # ?dbg @ [?ce])
         = (Inr (entries @ es), (fx @ ReadFileSync path # ?dbg @ [?ce]) @ fx')"
      "length es + length (filter (fileFails lib f) files) = length files"
      "list_all2 (\<lambda>e file. \<exists>fm err. readFrontmatter lib file = Inr fm \<and> f fm = Inl err \<and>
                   e = ConsoleError (parseErrorText file) (errorArgument err))
        (filter isConsoleError fx') (filter (fileFails lib f) files)"
      by blast
    have ff: "fileFails lib f path" using fm Inl by (simp add: fileFails_def)
    have "collectLoop lib debug c (path # files) entries fx
          = (Inr (entries @ es), fx @ (ReadFileSync path # ?dbg @ ?ce # fx'))"
      using collectLoop_step[OF assms(1) fm, of debug files entries fx] Inl h(1) by simp
    moreover have "length es + length (filter (fileFails lib f) (path # files)) = length (path # files)"
      using h(2) ff by simp
    moreover have "list_all2 (\<lambda>e file. \<exists>fm err. readFrontmatter lib file = Inr fm \<and> f fm = Inl err \<and>
                   e = ConsoleError (parseErrorText file) (errorArgument err))
        (filter isConsoleError (ReadFileSync path # ?dbg @ ?ce # fx')) (filter (fileFails lib f) (path # files))"
      using h(3) ff fm Inl by simp
    ultimately show ?thesis by blast
  qed
qed

lemma length_sort_insert: "length (sort_insert cmp x ys) = Suc (length ys)"
  by (induction ys) simp_all

lemma length_Array_sort: "length (Array_sort cmp xs) = length xs"
  by (induction xs) (simp_all add: Array_sort_def length_sort_insert)

lemma contract_Some_iff:
  "contract c = Some f \<Longrightarrow> \<not> (schema c = None \<and> parseFrontMatter c = None)"
  by (auto simp: contract_def)

subsection \<open>The model of \<^verbatim>\<open>Array.prototype.sort\<close>\<close>

lemma set_sort_insert: "set (sort_insert cmp x ys) = insert x (set ys)"
  by (induction ys) auto

lemma set_Array_sort: "set (Array_sort cmp xs) = set xs"
  by (induction xs) (simp_all add: Array_sort_def set_sort_insert)

lemma consistent_flip:
  "consistent_comparator S cmp \<Longrightarrow> a \<in> S \<Longrightarrow> b \<in> S \<Longrightarrow> 0 < cmp a b \<Longrightarrow> cmp b a \<le> 0"
  unfolding consistent_comparator_def by fastforce

lemma consistent_trans:
  "consistent_comparator S cmp \<Longrightarrow> a \<in> S \<Longrightarrow> b \<in> S \<Longrightarrow> c \<in> S \<Longrightarrow>
   cmp a b \<le> 0 \<Longrightarrow> cmp b c \<le> 0 \<Longrightarrow> cmp a c \<le> 0"
  unfolding consistent_comparator_def by blast

lemma consistent_sym0:
  "consistent_comparator S cmp \<Longrightarrow> a \<in> S \<Longrightarrow> b \<in> S \<Longrightarrow> cmp a b = 0 \<Longrightarrow> cmp b a = 0"
  unfolding consistent_comparator_def by (metis less_irrefl not_less_iff_gr_or_eq)

lemma consistent_subset:
  "consistent_comparator S cmp \<Longrightarrow> T \<subseteq> S \<Longrightarrow> consistent_comparator T cmp"
  unfolding consistent_comparator_def by blast

lemma sorted_sort_insert:
  assumes "consistent_comparator S cmp" "x \<in> S" "set ys \<subseteq> S"
    and "sorted_wrt (\<lambda>a b. cmp a b \<le> 0) ys"
  shows "sorted_wrt (\<lambda>a b. cmp a b \<le> 0) (sort_insert cmp x ys)"
  using assms(3,4)
proof (induction ys)
  case Nil
  show ?case by simp
next
  case (Cons y ys)
  show ?case
  proof (cases "0 < cmp x y")
    case True
    have "cmp y x \<le> 0" using consistent_flip[OF assms(1,2)] Cons.prems True by simp
    then show ?thesis using True Cons by (auto simp: set_sort_insert)
  next
    case False
    have "cmp x z \<le> 0" if "z \<in> set ys" for z
      using consistent_trans[OF assms(1,2), of y z] that Cons.prems False by auto
    then show ?thesis using False Cons.prems by auto
  qed
qed

lemma sorted_Array_sort:
  "consistent_comparator S cmp \<Longrightarrow> set xs \<subseteq> S \<Longrightarrow> sorted_wrt (\<lambda>a b. cmp a b \<le> 0) (Array_sort cmp xs)"
proof (induction xs)
  case Nil
  show ?case by (simp add: Array_sort_def)
next
  case (Cons x xs)
  have "sorted_wrt (\<lambda>a b. cmp a b \<le> 0) (sort_insert cmp x (Array_sort cmp xs))"
    using sorted_sort_insert[of S cmp x "Array_sort cmp xs"] Cons by (simp add: set_Array_sort)
  then show ?case by (simp add: Array_sort_def)
qed

lemma tied_sort_insert:
  assumes "consistent_comparator S cmp" "x \<in> S" "k \<in> S" "set ys \<subseteq> S"
  shows "filter (\<lambda>y. cmp k y = 0) (sort_insert cmp x ys) = filter (\<lambda>y. cmp k y = 0) (x # ys)"
  using assms(4)
proof (induction ys)
  case Nil
  show ?case by simp
next
  case (Cons y ys)
  show ?case
  proof (cases "0 < cmp x y")
    case True
    have "\<not> (cmp k x = 0 \<and> cmp k y = 0)"
    proof
      assume h: "cmp k x = 0 \<and> cmp k y = 0"
      have "cmp x k = 0" using consistent_sym0[OF assms(1,3,2)] h by simp
      then have "cmp x y \<le> 0" using consistent_trans[OF assms(1,2,3), of y] h Cons.prems by simp
      then show False using True by simp
    qed
    then show ?thesis using True Cons by auto
  next
    case False
    then show ?thesis by simp
  qed
qed

lemma tied_Array_sort:
  "consistent_comparator S cmp \<Longrightarrow> set xs \<subseteq> S \<Longrightarrow> k \<in> S \<Longrightarrow>
   filter (\<lambda>y. cmp k y = 0) (Array_sort cmp xs) = filter (\<lambda>y. cmp k y = 0) xs"
proof (induction xs)
  case Nil
  show ?case by (simp add: Array_sort_def)
next
  case (Cons x xs)
  have "filter (\<lambda>y. cmp k y = 0) (sort_insert cmp x (Array_sort cmp xs))
        = filter (\<lambda>y. cmp k y = 0) (x # Array_sort cmp xs)"
    using tied_sort_insert[of S cmp x k "Array_sort cmp xs"] Cons.prems by (simp add: set_Array_sort)
  then show ?case using Cons by (simp add: Array_sort_def)
qed

subsection \<open>Partial-failure isolation\<close>

text \<open>
  C3. Let a collection have a contract \<open>f\<close> (its schema's parse, or else its
  \<^verbatim>\<open>parseFrontMatter\<close>), let every matched file be read and its metadata extracted
  without an exception, and let the contract reject the frontmatter of exactly one of the
  \<open>N\<close> matched files, \<open>bad\<close>. Then the compilation returns (no exception escapes), it
  returns exactly \<open>N - 1\<close> entries, and the only \<^verbatim>\<open>console.error\<close> lines it
  writes are one diagnostic, naming \<open>bad\<close> and carrying what the contract threw.
\<close>

theorem partial_failure_isolation:
  assumes "contract c = Some f"
    and "allFiles = globSync lib (globsafe (include_glob c)) (ignore c)"
    and "\<forall>file\<in>set allFiles. \<exists>fm. readFrontmatter lib file = Inr fm"
    and "filter (fileFails lib f) allFiles = [bad]"
  shows "\<exists>entries fx' fm err.
      collectFrontmatterEntries lib debug c fx = (Inr entries, fx @ fx') \<and>
      length entries + 1 = length allFiles \<and>
      readFrontmatter lib bad = Inr fm \<and> f fm = Inl err \<and>
      filter isConsoleError fx' = [ConsoleError (parseErrorText bad) (errorArgument err)]"
proof -
  let ?g = "GlobSync (globsafe (include_glob c)) (ignore c)"
  from collectLoop_contract[OF assms(1,3), of debug "[]" "fx @ [?g]"]
  obtain es fx' where h:
    "collectLoop lib debug c allFiles [] (fx @ [?g]) = (Inr es, (fx @ [?g]) @ fx')"
    "length es + length (filter (fileFails lib f) allFiles) = length allFiles"
    "list_all2 (\<lambda>e file. \<exists>fm err. readFrontmatter lib file = Inr fm \<and> f fm = Inl err \<and>
                   e = ConsoleError (parseErrorText file) (errorArgument err))
        (filter isConsoleError fx') (filter (fileFails lib f) allFiles)"
    by auto
  from h(3) assms(4) obtain fm err where d:
    "readFrontmatter lib bad = Inr fm" "f fm = Inl err"
    "filter isConsoleError fx' = [ConsoleError (parseErrorText bad) (errorArgument err)]"
    by (auto simp: list_all2_Cons2)
  define out where "out = (case sort_fn c of Some cmp \<Rightarrow> Array_sort cmp es | None \<Rightarrow> es)"
  have len: "length out = length es"
    by (simp add: out_def length_Array_sort split: option.splits)
  let ?fx' = "?g # fx' @ [ConsoleLogCollected (length out) (length allFiles) (name c)]"
  have "collectFrontmatterEntries lib debug c fx = (Inr out, fx @ ?fx')"
    using h(1) contract_Some_iff[OF assms(1)] assms(2)
    by (simp add: collectFrontmatterEntries_def Let_def out_def)
  moreover have "length out + 1 = length allFiles" using h(2) len assms(4) by simp
  moreover have "filter isConsoleError ?fx' = [ConsoleError (parseErrorText bad) (errorArgument err)]"
    using d(3) by simp
  ultimately show ?thesis using d(1,2) by blast
qed

theorem partial_failure_isolation_witness:
  "contract posts = Some (parse demo_schema) \<and>
   filter (fileFails demo_lib (parse demo_schema))
     (globSync demo_lib (globsafe (include_glob posts)) (ignore posts)) = [''posts/b.mdx''] \<and>
   (\<exists>entries fx'.
      collectFrontmatterEntries demo_lib True posts [] = (Inr entries, fx') \<and>
      length entries + 1 = 4 \<and>
      filter isConsoleError fx' =
        [ConsoleError ''Error parsing frontmatter in posts/b.mdx''
           (JStr ''rank: expected number'')])"
proof -
  let ?files = "[''posts/a.mdx'', ''posts/b.mdx'', ''posts/c.mdx'', ''posts/d.mdx'']"
  have h1: "contract posts = Some (parse demo_schema)"
    by (simp add: contract_def posts_def)
  have h2: "?files = globSync demo_lib (globsafe (include_glob posts)) (ignore posts)"
    by (simp add: demo_defs)
  have h3: "\<forall>file\<in>set ?files. \<exists>fm. readFrontmatter demo_lib file = Inr fm"
    by (simp add: demo_defs)
  have h4: "filter (fileFails demo_lib (parse demo_schema)) ?files = [''posts/b.mdx'']"
    by (simp add: fileFails_def demo_defs)
  have bad: "readFrontmatter demo_lib ''posts/b.mdx'' =
      Inr [(''filePath'', JStr ''posts/b.mdx''), (''rank'', JStr ''high''), (''published'', JBool True)]"
    by (simp add: demo_defs)
  have thrown: "parse demo_schema
      [(''filePath'', JStr ''posts/b.mdx''), (''rank'', JStr ''high''), (''published'', JBool True)]
      = Inl (Error ''rank: expected number'')"
    by (simp add: demo_defs)
  from partial_failure_isolation [OF h1 h2 h3 h4, of True "[]"]
  obtain entries fx' fm err where r:
    "collectFrontmatterEntries demo_lib True posts [] = (Inr entries, fx')"
    "length entries + 1 = length ?files"
    "readFrontmatter demo_lib ''posts/b.mdx'' = Inr fm"
    "parse demo_schema fm = Inl err"
    "filter isConsoleError fx' = [ConsoleError (parseErrorText ''posts/b.mdx'') (errorArgument err)]"
    by auto
  from r(3) bad have "fm = [(''filePath'', JStr ''posts/b.mdx''), (''rank'', JStr ''high''),
      (''published'', JBool True)]" by simp
  with r(4) thrown have "err = Error ''rank: expected number''" by simp
  with r(5) have "filter isConsoleError fx' =
      [ConsoleError ''Error parsing frontmatter in posts/b.mdx'' (JStr ''rank: expected number'')]"
    by (simp add: parseErrorText_def)
  with r(1,2) h1 h4 show ?thesis unfolding h2 [symmetric] by simp
qed

subsection \<open>Sorting\<close>

lemma collectLoop_sort_irrelevant:
  "collectLoop lib debug (c\<lparr>sort_fn := x\<rparr>) files entries fx = collectLoop lib debug c files entries fx"
  by (cases debug; induction files arbitrary: entries fx; simp split: sum.splits option.splits add: Let_def)

lemma mset_sort_insert: "mset (sort_insert cmp x ys) = add_mset x (mset ys)"
  by (induction ys) simp_all

lemma mset_Array_sort: "mset (Array_sort cmp xs) = mset xs"
  by (induction xs) (simp_all add: Array_sort_def mset_sort_insert)

lemma collect_sorted_from_unsorted:
  assumes "sort_fn c = Some cmp"
    and "collectFrontmatterEntries lib debug c fx = (Inr out, fx')"
  shows "\<exists>pre. fst (collectFrontmatterEntries lib debug (c\<lparr>sort_fn := None\<rparr>) fx) = Inr pre \<and>
               out = Array_sort cmp pre"
  using assms
  by (auto simp: collectFrontmatterEntries_def Let_def collectLoop_sort_irrelevant
           split: if_splits prod.splits sum.splits)

text \<open>
  C7. Let a collection have a \<^verbatim>\<open>sort\<close> comparator that is a consistent comparator on
  the entries of the compiled output \<open>out\<close>. Then no two adjacent entries \<open>a\<close> before
  \<open>b\<close> of \<open>out\<close> have a positive comparison (the comparator never asks for \<open>b\<close> before
  \<open>a\<close>), \<open>out\<close> is a rearrangement of the sequence \<open>pre\<close> that the same collection
  compiles to without the comparator, and the entries that compare equal (zero) to any
  entry \<open>k\<close> stand in \<open>out\<close> in the order they have in \<open>pre\<close>: the sort is stable.
\<close>

theorem sort_orders_output_stably:
  assumes "sort_fn c = Some cmp"
    and "collectFrontmatterEntries lib debug c fx = (Inr out, fx')"
    and "consistent_comparator (set out) cmp"
  shows "(\<forall>i. Suc i < length out \<longrightarrow> \<not> 0 < cmp (out ! i) (out ! Suc i)) \<and>
         (\<exists>pre. fst (collectFrontmatterEntries lib debug (c\<lparr>sort_fn := None\<rparr>) fx) = Inr pre \<and>
                mset out = mset pre \<and>
                (\<forall>k\<in>set pre. filter (\<lambda>e. cmp k e = 0) out = filter (\<lambda>e. cmp k e = 0) pre))"
proof -
  from collect_sorted_from_unsorted[OF assms(1,2)] obtain pre where
    pre: "fst (collectFrontmatterEntries lib debug (c\<lparr>sort_fn := None\<rparr>) fx) = Inr pre"
    and out: "out = Array_sort cmp pre"
    by blast
  have sets: "set pre = set out" by (simp add: out set_Array_sort)
  then have cons: "consistent_comparator (set pre) cmp" using assms(3) by simp
  have srt: "sorted_wrt (\<lambda>a b. cmp a b \<le> 0) out"
    unfolding out using sorted_Array_sort[OF cons] by simp
  have adj: "\<forall>i. Suc i < length out \<longrightarrow> \<not> 0 < cmp (out ! i) (out ! Suc i)"
  proof (intro allI impI)
    fix i
    assume "Suc i < length out"
    with srt have "cmp (out ! i) (out ! Suc i) \<le> 0"
      by (simp add: sorted_wrt_iff_nth_less)
    then show "\<not> 0 < cmp (out ! i) (out ! Suc i)" by simp
  qed
  have tied: "\<forall>k\<in>set pre. filter (\<lambda>e. cmp k e = 0) out = filter (\<lambda>e. cmp k e = 0) pre"
    unfolding out using tied_Array_sort[OF cons] by simp
  have "mset out = mset pre" by (simp add: out mset_Array_sort)
  with pre adj tied show ?thesis by blast
qed

theorem sort_orders_output_stably_witness:
  "sort_fn posts = Some demo_cmp \<and>
   collectFrontmatterEntries demo_lib False posts [] = (Inr [post_c, post_a, post_d],
     snd (collectFrontmatterEntries demo_lib False posts [])) \<and>
   consistent_comparator (set [post_c, post_a, post_d]) demo_cmp \<and>
   \<not> 0 < demo_cmp post_c post_a \<and> \<not> 0 < demo_cmp post_a post_d \<and>
   fst (collectFrontmatterEntries demo_lib False (posts\<lparr>sort_fn := None\<rparr>) []) =
     Inr [post_a, post_c, post_d] \<and>
   filter (\<lambda>e. demo_cmp post_a e = 0) [post_c, post_a, post_d] = [post_a, post_d]"
proof -
  let ?out = "[post_c, post_a, post_d]"
  have h1: "sort_fn posts = Some demo_cmp" by (simp add: posts_def)
  have h2: "collectFrontmatterEntries demo_lib False posts [] =
      (Inr ?out, snd (collectFrontmatterEntries demo_lib False posts []))"
    by (simp add: posts_compiled)
  have h3: "consistent_comparator (set ?out) demo_cmp"
    by (simp add: consistent_comparator_def demo_cmp_def rank_of_def obj_get_def
          post_a_def post_c_def post_d_def)
  have un: "fst (collectFrontmatterEntries demo_lib False (posts\<lparr>sort_fn := None\<rparr>) []) =
      Inr [post_a, post_c, post_d]"
    by (simp add: collectFrontmatterEntries_def demo_defs)
  from sort_orders_output_stably [OF h1 h2 h3]
  have adj: "\<forall>i. Suc i < length ?out \<longrightarrow> \<not> 0 < demo_cmp (?out ! i) (?out ! Suc i)"
    and tied: "\<forall>k\<in>set [post_a, post_c, post_d].
        filter (\<lambda>e. demo_cmp k e = 0) ?out = filter (\<lambda>e. demo_cmp k e = 0) [post_a, post_c, post_d]"
    using un by auto
  from adj [rule_format, of 0] have "\<not> 0 < demo_cmp post_c post_a" by simp
  moreover from adj [rule_format, of 1] have "\<not> 0 < demo_cmp post_a post_d" by simp
  moreover from tied have "filter (\<lambda>e. demo_cmp post_a e = 0) ?out =
      filter (\<lambda>e. demo_cmp post_a e = 0) [post_a, post_c, post_d]" by simp
  then have "filter (\<lambda>e. demo_cmp post_a e = 0) ?out = [post_a, post_d]"
    by (simp add: demo_cmp_def rank_of_def obj_get_def post_a_def post_c_def post_d_def)
  ultimately show ?thesis using h1 h2 h3 un by simp
qed

subsection \<open>Schema before parse function\<close>

lemma collectLoop_parse_irrelevant:
  "schema c = Some s \<Longrightarrow>
   collectLoop lib debug (c\<lparr>parseFrontMatter := p\<rparr>) files entries fx = collectLoop lib debug c files entries fx"
  by (cases debug; induction files arbitrary: entries fx; simp split: sum.splits option.splits add: Let_def)

lemma collectLoop_entries:
  assumes "contract c = Some f"
  shows "fst (collectLoop lib debug c files entries fx) = Inr out \<Longrightarrow>
         out = entries @ entriesOfContract lib f files"
proof (induction files arbitrary: entries fx)
  case Nil
  then show ?case by (simp add: entriesOfContract_def map_filter_simps)
next
  case (Cons path files)
  from Cons.prems obtain fm where fm: "readFrontmatter lib path = Inr fm"
    by (cases "readFrontmatter lib path") auto
  show ?case
  proof (cases "f fm")
    case (Inr entry)
    with Cons.prems collectLoop_step[OF assms fm, of debug files entries fx]
    have "fst (collectLoop lib debug c files (entries @ [entry])
            (fx @ ReadFileSync path # (if debug then [ConsoleLogDebug path fm] else []))) = Inr out"
      by simp
    from Cons.IH[OF this] show ?thesis
      using fm Inr by (simp add: entriesOfContract_def map_filter_simps)
  next
    case (Inl err)
    with Cons.prems collectLoop_step[OF assms fm, of debug files entries fx]
    have "fst (collectLoop lib debug c files entries
            (fx @ ReadFileSync path # (if debug then [ConsoleLogDebug path fm] else []) @
               [ConsoleError (parseErrorText path) (errorArgument err)])) = Inr out"
      by simp
    from Cons.IH[OF this] show ?thesis
      using fm Inl by (simp add: entriesOfContract_def map_filter_simps)
  qed
qed

text \<open>
  C10. Let a collection have both a schema and a \<^verbatim>\<open>parseFrontMatter\<close> function. Then
  the compilation (its result and its effects) is the same whatever stands in the place of
  \<^verbatim>\<open>parseFrontMatter\<close>, also nothing: the function is never applied. And the entries of
  the output are, up to the order the sort gives them, the values that the schema's
  \<^verbatim>\<open>parse\<close> returns on the frontmatter of the matched files.
\<close>

theorem schema_takes_precedence:
  assumes "schema c = Some s" and "parseFrontMatter c = Some p"
  shows "collectFrontmatterEntries lib debug (c\<lparr>parseFrontMatter := p'\<rparr>) fx =
           collectFrontmatterEntries lib debug c fx \<and>
         (\<forall>out fx'. collectFrontmatterEntries lib debug c fx = (Inr out, fx') \<longrightarrow>
            mset out = mset (entriesOfContract lib (parse s)
                              (globSync lib (globsafe (include_glob c)) (ignore c))))"
proof -
  have indep: "collectFrontmatterEntries lib debug (c\<lparr>parseFrontMatter := p'\<rparr>) fx =
           collectFrontmatterEntries lib debug c fx"
    using assms(1)
    by (simp add: collectFrontmatterEntries_def collectLoop_parse_irrelevant Let_def
             split: prod.splits sum.splits)
  have con: "contract c = Some (parse s)" using assms(1) by (simp add: contract_def)
  have "mset out = mset (entriesOfContract lib (parse s)
                              (globSync lib (globsafe (include_glob c)) (ignore c)))"
    if h: "collectFrontmatterEntries lib debug c fx = (Inr out, fx')" for out fx'
  proof -
    let ?files = "globSync lib (globsafe (include_glob c)) (ignore c)"
    let ?fx0 = "fx @ [GlobSync (globsafe (include_glob c)) (ignore c)]"
    obtain r fx1 where loop: "collectLoop lib debug c ?files [] ?fx0 = (r, fx1)"
      by (cases "collectLoop lib debug c ?files [] ?fx0") auto
    from h loop assms(1) obtain pre where pre: "r = Inr pre"
      and out: "out = (case sort_fn c of Some cmp \<Rightarrow> Array_sort cmp pre | None \<Rightarrow> pre)"
      by (cases r) (auto simp: collectFrontmatterEntries_def Let_def)
    from collectLoop_entries[OF con, of lib debug ?files "[]" ?fx0 pre] loop pre
    have "pre = entriesOfContract lib (parse s) ?files" by simp
    then show ?thesis using out by (simp add: mset_Array_sort split: option.splits)
  qed
  with indep show ?thesis by blast
qed

theorem schema_takes_precedence_witness:
  "schema (posts\<lparr>parseFrontMatter := Some (\<lambda>fm. Inr [])\<rparr>) = Some demo_schema \<and>
   parseFrontMatter (posts\<lparr>parseFrontMatter := Some (\<lambda>fm. Inr [])\<rparr>) = Some (\<lambda>fm. Inr []) \<and>
   collectFrontmatterEntries demo_lib False (posts\<lparr>parseFrontMatter := Some (\<lambda>fm. Inr [])\<rparr>) [] =
     collectFrontmatterEntries demo_lib False posts [] \<and>
   fst (collectFrontmatterEntries demo_lib False (posts\<lparr>parseFrontMatter := Some (\<lambda>fm. Inr [])\<rparr>) [])
     = Inr [post_c, post_a, post_d] \<and>
   entriesOfContract demo_lib (parse demo_schema)
     [''posts/a.mdx'', ''posts/b.mdx'', ''posts/c.mdx'', ''posts/d.mdx''] = [post_a, post_c, post_d] \<and>
   mset [post_c, post_a, post_d] =
     mset (entriesOfContract demo_lib (parse demo_schema)
             [''posts/a.mdx'', ''posts/b.mdx'', ''posts/c.mdx'', ''posts/d.mdx''])"
proof -
  let ?c = "posts\<lparr>parseFrontMatter := Some (\<lambda>fm. Inr [])\<rparr>"
  let ?files = "[''posts/a.mdx'', ''posts/b.mdx'', ''posts/c.mdx'', ''posts/d.mdx'']"
  have h1: "schema ?c = Some demo_schema" by (simp add: posts_def)
  have h2: "parseFrontMatter ?c = Some (\<lambda>fm. Inr [])" by simp
  have matched: "globSync demo_lib (globsafe (include_glob ?c)) (ignore ?c) = ?files"
    by (simp add: demo_defs)
  have undo: "?c\<lparr>parseFrontMatter := None\<rparr> = posts" by (simp add: posts_def)
  note t = schema_takes_precedence [OF h1 h2, of demo_lib False None "[]"]
  from t have "collectFrontmatterEntries demo_lib False (?c\<lparr>parseFrontMatter := None\<rparr>) [] =
          collectFrontmatterEntries demo_lib False ?c []"
    by (rule conjunct1)
  then have same: "collectFrontmatterEntries demo_lib False ?c [] =
      collectFrontmatterEntries demo_lib False posts []"
    by (simp only: undo)
  then have run: "collectFrontmatterEntries demo_lib False ?c [] =
      (Inr [post_c, post_a, post_d], snd (collectFrontmatterEntries demo_lib False posts []))"
    by (simp add: posts_compiled)
  from t [THEN conjunct2, rule_format, OF run]
  have perm: "mset [post_c, post_a, post_d] = mset (entriesOfContract demo_lib (parse demo_schema) ?files)"
    by (simp only: matched)
  have ents: "entriesOfContract demo_lib (parse demo_schema) ?files = [post_a, post_c, post_d]"
    by (simp add: entriesOfContract_def map_filter_simps demo_defs)
  have out: "fst (collectFrontmatterEntries demo_lib False ?c []) = Inr [post_c, post_a, post_d]"
    by (simp add: same posts_compiled)
  from h1 h2 same out ents perm show ?thesis by (intro conjI)
qed

subsection \<open>The aggregate and a collection without a contract\<close>

lemma collect_fst_effects:
  "fst (collectFrontmatterEntries lib debug c fx) = fst (collectFrontmatterEntries lib debug' c fx')"
proof -
  let ?files = "globSync lib (globsafe (include_glob c)) (ignore c)"
  let ?g = "GlobSync (globsafe (include_glob c)) (ignore c)"
  have "fst (collectLoop lib debug c ?files [] (fx @ [?g])) =
        fst (collectLoop lib debug' c ?files [] (fx' @ [?g]))"
    by (rule collectLoop_fst_effects)
  then show ?thesis
    by (auto simp: collectFrontmatterEntries_def Let_def split: prod.splits sum.splits)
qed

lemma collect_missing_contract:
  "schema c = None \<Longrightarrow> parseFrontMatter c = None \<Longrightarrow>
   collectFrontmatterEntries lib debug c fx = (Inl (Error (missingContractMessage (name c))), fx)"
  by (simp add: collectFrontmatterEntries_def)

lemma refreshLoop_missing_contract:
  assumes "schema c = None" and "parseFrontMatter c = None"
  shows "c \<in> set cs \<Longrightarrow> \<exists>err. fst (refreshLoop lib debug cs acc fx) = Inl err"
proof (induction cs arbitrary: acc fx)
  case Nil
  then show ?case by simp
next
  case (Cons d cs)
  obtain r fx1 where d: "collectFrontmatterEntries lib debug d fx = (r, fx1)"
    by (cases "collectFrontmatterEntries lib debug d fx") auto
  show ?case
  proof (cases r)
    case (Inl err)
    with d show ?thesis by simp
  next
    case (Inr es)
    with d collect_missing_contract[OF assms, of lib debug fx] have "d \<noteq> c" by auto
    with Cons.prems have "c \<in> set cs" by simp
    from Cons.IH[OF this] d Inr show ?thesis by simp
  qed
qed

lemma refreshLoop_first_error:
  assumes "\<forall>d\<in>set pre. \<exists>es. fst (collectFrontmatterEntries lib debug d []) = Inr es"
    and "fst (collectFrontmatterEntries lib debug c []) = Inl err"
  shows "fst (refreshLoop lib debug (pre @ c # post) acc fx) = Inl err"
  using assms(1)
proof (induction pre arbitrary: acc fx)
  case Nil
  obtain r fx1 where c: "collectFrontmatterEntries lib debug c fx = (r, fx1)"
    by (cases "collectFrontmatterEntries lib debug c fx") auto
  with assms(2) collect_fst_effects[of lib debug c fx debug "[]"] have "r = Inl err" by simp
  with c show ?case by simp
next
  case (Cons d pre)
  obtain r fx1 where d: "collectFrontmatterEntries lib debug d fx = (r, fx1)"
    by (cases "collectFrontmatterEntries lib debug d fx") auto
  from Cons.prems obtain es where "fst (collectFrontmatterEntries lib debug d []) = Inr es" by auto
  with d collect_fst_effects[of lib debug d fx debug "[]"] have "r = Inr es" by simp
  with d Cons show ?case by simp
qed

lemma refreshLoop_Inr:
  "fst (refreshLoop lib debug cs acc fx) = Inr exps \<longleftrightarrow>
     (\<exists>ess. list_all2 (\<lambda>c es. fst (collectFrontmatterEntries lib debug c []) = Inr es) cs ess \<and>
            exps = acc @ map2 (\<lambda>c es. exportStatement lib (name c) es) cs ess)"
proof (induction cs arbitrary: acc fx)
  case Nil
  show ?case by auto
next
  case (Cons d cs)
  obtain r fx1 where d: "collectFrontmatterEntries lib debug d fx = (r, fx1)"
    by (cases "collectFrontmatterEntries lib debug d fx") auto
  have r: "fst (collectFrontmatterEntries lib debug d []) = r"
    using d collect_fst_effects[of lib debug d "[]" debug fx] by simp
  show ?case
  proof (cases r)
    case (Inl err)
    with d r show ?thesis by (auto simp: list_all2_Cons1)
  next
    case (Inr es)
    with d r Cons.IH[of "acc @ [exportStatement lib (name d) es]" fx1]
    show ?thesis by (auto simp: list_all2_Cons1)
  qed
qed

text \<open>
  C4. Let a collection declare neither \<^verbatim>\<open>schema\<close> nor \<^verbatim>\<open>parseFrontMatter\<close>. Its
  compilation throws the configuration error and has no effect: the matcher is not called
  and no file is read. When the collection is among the configured ones,
  \<^verbatim>\<open>refreshVirtualModuleContent\<close> and \<^verbatim>\<open>load\<close> throw, so that no module body is
  produced, and \<^verbatim>\<open>virtualModuleExports\<close> keeps its value. When the collections before it
  compile, what the aggregate throws is this configuration error.
\<close>

theorem missing_contract_aborts:
  assumes "schema c = None" and "parseFrontMatter c = None"
  shows "collectFrontmatterEntries lib debug c fx =
           (Inl (Error (missingContractMessage (name c))), fx) \<and>
         (c \<in> set cs \<longrightarrow>
            (\<exists>err st'. refreshVirtualModuleContent lib debug cs st = (Inl err, st') \<and>
                       virtualModuleExports st' = virtualModuleExports st) \<and>
            (\<exists>err st'. load lib debug cs (resolvedVirtualModuleId virtualModuleId) st = (Inl err, st'))) \<and>
         (\<forall>pre post. cs = pre @ c # post \<and>
              (\<forall>d\<in>set pre. \<exists>es. fst (collectFrontmatterEntries lib debug d []) = Inr es) \<longrightarrow>
            fst (refreshVirtualModuleContent lib debug cs st) =
              Inl (Error (missingContractMessage (name c))))"
proof -
  have one: "collectFrontmatterEntries lib debug c fx =
           (Inl (Error (missingContractMessage (name c))), fx)" for fx
    using assms by (rule collect_missing_contract)
  have two: "(\<exists>err st'. refreshVirtualModuleContent lib debug cs st = (Inl err, st') \<and>
                       virtualModuleExports st' = virtualModuleExports st) \<and>
            (\<exists>err st'. load lib debug cs (resolvedVirtualModuleId virtualModuleId) st = (Inl err, st'))"
    if "c \<in> set cs"
  proof -
    from refreshLoop_missing_contract[OF assms that, of lib debug "[]" "effects st"]
    obtain err where "fst (refreshLoop lib debug cs [] (effects st)) = Inl err" by blast
    then obtain fx1 where "refreshLoop lib debug cs [] (effects st) = (Inl err, fx1)"
      by (cases "refreshLoop lib debug cs [] (effects st)") auto
    then have "refreshVirtualModuleContent lib debug cs st = (Inl err, st\<lparr>effects := fx1\<rparr>)"
      by (simp add: refreshVirtualModuleContent_def)
    then show ?thesis by (simp add: load_def)
  qed
  have three: "fst (refreshVirtualModuleContent lib debug cs st) =
              Inl (Error (missingContractMessage (name c)))"
    if "cs = pre @ c # post"
      and "\<forall>d\<in>set pre. \<exists>es. fst (collectFrontmatterEntries lib debug d []) = Inr es"
    for pre post
  proof -
    have "fst (collectFrontmatterEntries lib debug c []) = Inl (Error (missingContractMessage (name c)))"
      by (simp add: one)
    from refreshLoop_first_error[OF that(2) this, of post "[]" "effects st"] that(1)
    show ?thesis
      by (auto simp: refreshVirtualModuleContent_def split: prod.splits sum.splits)
  qed
  from one two three show ?thesis by blast
qed

theorem missing_contract_aborts_witness:
  "schema drafts = None \<and> parseFrontMatter drafts = None \<and>
   collectFrontmatterEntries demo_lib False drafts [] =
     (Inl (Error ''You must provide a schema or a parseFrontMatter function for the collection drafts''), []) \<and>
   drafts \<in> set [pages, drafts, posts] \<and>
   (\<exists>err st'. refreshVirtualModuleContent demo_lib False [pages, drafts, posts] initial_state = (Inl err, st') \<and>
              virtualModuleExports st' = None) \<and>
   fst (refreshVirtualModuleContent demo_lib False [pages, drafts, posts] initial_state) =
     Inl (Error ''You must provide a schema or a parseFrontMatter function for the collection drafts'')"
proof -
  have h1: "schema drafts = None" and h2: "parseFrontMatter drafts = None"
    by (simp_all add: drafts_def)
  have h3: "drafts \<in> set [pages, drafts, posts]" by simp
  have h4: "[pages, drafts, posts] = [pages] @ drafts # [posts] \<and>
      (\<forall>d\<in>set [pages]. \<exists>es. fst (collectFrontmatterEntries demo_lib False d []) = Inr es)"
    by (simp add: pages_compiled)
  have msg: "missingContractMessage (name drafts) =
      ''You must provide a schema or a parseFrontMatter function for the collection drafts''"
    by (simp add: missingContractMessage_def drafts_def)
  note t = missing_contract_aborts [OF h1 h2, of demo_lib False "[]" "[pages, drafts, posts]" initial_state]
  from t have a: "collectFrontmatterEntries demo_lib False drafts [] =
     (Inl (Error (missingContractMessage (name drafts))), [])" by blast
  from t h3 have b: "\<exists>err st'. refreshVirtualModuleContent demo_lib False [pages, drafts, posts] initial_state = (Inl err, st') \<and>
              virtualModuleExports st' = virtualModuleExports initial_state" by blast
  from t h4 have c: "fst (refreshVirtualModuleContent demo_lib False [pages, drafts, posts] initial_state) =
     Inl (Error (missingContractMessage (name drafts)))" by blast
  from a b c h1 h2 h3 show ?thesis by (simp add: msg initial_state_def)
qed

subsection \<open>The body of the virtual module\<close>

lemma load_Inr_iff:
  "fst (load lib debug cs (resolvedVirtualModuleId virtualModuleId) st) = Inr (Some body) \<longleftrightarrow>
     (\<exists>ess. list_all2 (\<lambda>c es. fst (collectFrontmatterEntries lib debug c []) = Inr es) cs ess \<and>
            body = join newline (map2 (\<lambda>c es. exportStatement lib (name c) es) cs ess))"
proof -
  obtain r fx1 where loop: "refreshLoop lib debug cs [] (effects st) = (r, fx1)"
    by (cases "refreshLoop lib debug cs [] (effects st)") auto
  have "fst (load lib debug cs (resolvedVirtualModuleId virtualModuleId) st) = Inr (Some body) \<longleftrightarrow>
        (\<exists>exps. fst (refreshLoop lib debug cs [] (effects st)) = Inr exps \<and> body = join newline exps)"
    using loop by (cases r) (auto simp: load_def refreshVirtualModuleContent_def Let_def)
  then show ?thesis
    unfolding refreshLoop_Inr by auto
qed

lemma demo_statements:
  "exportStatement demo_lib (name posts) [post_c, post_a, post_d] =
     ''export const posts = [posts/c.mdx,posts/a.mdx,posts/d.mdx];''"
  "exportStatement demo_lib (name pages) [page_home, page_about] =
     ''export const pages = [/,pages/about.mdx];''"
  by (simp_all add: exportStatement_def demo_lib_def demo_stringify_def obj_get_def posts_def
        pages_def post_a_def post_c_def post_d_def page_home_def page_about_def)

lemma demo_compiles:
  "list_all2 (\<lambda>c es. fst (collectFrontmatterEntries demo_lib False c []) = Inr es)
     [posts, pages] [[post_c, post_a, post_d], [page_home, page_about]]"
  by (simp add: posts_compiled pages_compiled)

lemma demo_load:
  "fst (load demo_lib False [posts, pages] (resolvedVirtualModuleId virtualModuleId) initial_state) =
     Inr (Some demo_body)"
proof -
  have "demo_body = join newline (map2 (\<lambda>c es. exportStatement demo_lib (name c) es)
          [posts, pages] [[post_c, post_a, post_d], [page_home, page_about]])"
    by (simp add: demo_statements demo_body_def)
  with demo_compiles show ?thesis
    unfolding load_Inr_iff by (intro exI conjI)
qed

text \<open>
  C6, as the source has it. \<^verbatim>\<open>load\<close> of the virtual module returns a body exactly when
  every configured collection compiles without an exception, and the body is then the
  statements \<^verbatim>\<open>export const <name> = <JSON of the compiled entries>;\<close>, one per
  collection in the order of the configuration, joined by one line feed between
  consecutive statements (\<^verbatim>\<open>exportedEntries.join("\n")\<close>).
\<close>

theorem module_body_is_joined_exports:
  "fst (load lib debug cs (resolvedVirtualModuleId virtualModuleId) st) = Inr (Some body) \<longleftrightarrow>
     (\<exists>ess. list_all2 (\<lambda>c es. fst (collectFrontmatterEntries lib debug c []) = Inr es) cs ess \<and>
            body = join newline (map2 (\<lambda>c es. exportStatement lib (name c) es) cs ess))"
  by (rule load_Inr_iff)

theorem module_body_is_joined_exports_witness:
  "fst (load demo_lib False [posts, pages] (resolvedVirtualModuleId virtualModuleId) initial_state) =
     Inr (Some (''export const posts = [posts/c.mdx,posts/a.mdx,posts/d.mdx];'' @ newline @
                ''export const pages = [/,pages/about.mdx];''))"
proof -
  have "demo_body = join newline (map2 (\<lambda>c es. exportStatement demo_lib (name c) es)
          [posts, pages] [[post_c, post_a, post_d], [page_home, page_about]])"
    by (simp add: demo_statements demo_body_def)
  with demo_compiles
  have "\<exists>ess. list_all2 (\<lambda>c es. fst (collectFrontmatterEntries demo_lib False c []) = Inr es)
            [posts, pages] ess \<and>
          demo_body = join newline (map2 (\<lambda>c es. exportStatement demo_lib (name c) es)
            [posts, pages] ess)"
    by (intro exI conjI)
  then have "fst (load demo_lib False [posts, pages] (resolvedVirtualModuleId virtualModuleId)
      initial_state) = Inr (Some demo_body)"
    by (simp only: module_body_is_joined_exports)
  then show ?thesis by (simp only: demo_body_def)
qed

text \<open>
  The body is not the bare concatenation of the statements: with the two collections
  \<open>posts\<close> and \<open>pages\<close> it differs from it by the line feed between them.
\<close>

theorem module_body_concatenation_counterexample:
  "fst (collectFrontmatterEntries demo_lib False posts []) = Inr [post_c, post_a, post_d] \<and>
   fst (collectFrontmatterEntries demo_lib False pages []) = Inr [page_home, page_about] \<and>
   fst (load demo_lib False [posts, pages] (resolvedVirtualModuleId virtualModuleId) initial_state) \<noteq>
     Inr (Some (concat [exportStatement demo_lib (name posts) [post_c, post_a, post_d],
                        exportStatement demo_lib (name pages) [page_home, page_about]]))"
  by (simp add: demo_load demo_statements demo_body_def newline_def posts_compiled pages_compiled)

subsection \<open>The injected file path\<close>

lemma map_of_obj_set: "map_of (obj_set k v obj) k' = (if k' = k then Some v else map_of obj k')"
  by (induction obj) auto

lemma obj_get_spread_absent:
  "obj_get source k = None \<Longrightarrow> obj_get (spread target source) k = obj_get target k"
  unfolding obj_get_def spread_def
  by (induction source arbitrary: target) (auto simp: map_of_obj_set split: if_splits)

text \<open>
  C2, as the source has it. For a file that is read and whose metadata block is extracted
  without an exception and has no \<open>filePath\<close> key of its own, the frontmatter that the
  loop builds has \<open>filePath\<close> equal to the path the matcher gave, and it is this mapping
  that the loop hands to the contract of the collection.
\<close>

theorem filePath_injected_when_absent:
  assumes "readFileSync lib file = Inr text"
    and "matter lib text = Inr data"
    and "obj_get data ''filePath'' = None"
  shows "\<exists>frontmatter.
      readFrontmatter lib file = Inr frontmatter \<and>
      obj_get frontmatter ''filePath'' = Some (JStr file) \<and>
      (\<forall>c f files entries fx. contract c = Some f \<longrightarrow>
         collectLoop lib debug c (file # files) entries fx =
           (case f frontmatter of
              Inr entry \<Rightarrow>
                collectLoop lib debug c files (entries @ [entry])
                  (fx @ ReadFileSync file #
                     (if debug then [ConsoleLogDebug file frontmatter] else []))
            | Inl error \<Rightarrow>
                collectLoop lib debug c files entries
                  (fx @ ReadFileSync file #
                     (if debug then [ConsoleLogDebug file frontmatter] else []) @
                     [ConsoleError (parseErrorText file) (errorArgument error)])))"
proof -
  have r: "readFrontmatter lib file = Inr (frontmatterOf file data)"
    using assms(1,2) by (simp add: readFrontmatter_def)
  have "obj_get (frontmatterOf file data) ''filePath'' = Some (JStr file)"
    using obj_get_spread_absent[OF assms(3), of "[(''filePath'', JStr file)]"]
    by (simp add: frontmatterOf_def obj_get_def)
  with r collectLoop_step[OF _ r] show ?thesis by blast
qed

theorem filePath_injected_when_absent_witness:
  "readFileSync demo_lib ''pages/about.mdx'' = Inr ''title: About'' \<and>
   matter demo_lib ''title: About'' = Inr [(''title'', JStr ''About'')] \<and>
   obj_get [(''title'', JStr ''About'')] ''filePath'' = None \<and>
   (\<exists>frontmatter.
      readFrontmatter demo_lib ''pages/about.mdx'' = Inr frontmatter \<and>
      obj_get frontmatter ''filePath'' = Some (JStr ''pages/about.mdx''))"
proof -
  have h1: "readFileSync demo_lib ''pages/about.mdx'' = Inr ''title: About''"
    by (simp add: demo_lib_def demo_disk_def)
  have h2: "matter demo_lib ''title: About'' = Inr [(''title'', JStr ''About'')]"
    by (simp add: demo_lib_def demo_blocks_def)
  have h3: "obj_get [(''title'', JStr ''About'')] ''filePath'' = None"
    by (simp add: obj_get_def)
  from filePath_injected_when_absent [OF h1 h2 h3, of False]
  have "\<exists>frontmatter.
      readFrontmatter demo_lib ''pages/about.mdx'' = Inr frontmatter \<and>
      obj_get frontmatter ''filePath'' = Some (JStr ''pages/about.mdx'')"
    by blast
  with h1 h2 h3 show ?thesis by (intro conjI)
qed

text \<open>
  With a \<open>filePath\<close> key in the metadata block the spread of line 160 comes after the
  injected field and wins: the page \<open>pages/home.mdx\<close> reaches its contract (which returns
  it as the entry) with \<open>filePath\<close> equal to \<open>/\<close>.
\<close>

theorem filePath_overridden_counterexample:
  "globSync demo_lib (globsafe (include_glob pages)) (ignore pages) =
     [''pages/home.mdx'', ''pages/about.mdx''] \<and>
   readFrontmatter demo_lib ''pages/home.mdx'' = Inr page_home \<and>
   obj_get page_home ''filePath'' = Some (JStr ''/'') \<and>
   obj_get page_home ''filePath'' \<noteq> Some (JStr ''pages/home.mdx'') \<and>
   fst (collectFrontmatterEntries demo_lib False pages []) = Inr [page_home, page_about]"
  by (simp add: pages_compiled) (simp add: demo_defs)

subsection \<open>Invalidation on a file change\<close>

text \<open>
  C5. Let the virtual module, if the graph holds it, be fresh before the notification.
  After \<^verbatim>\<open>handleHotUpdate\<close> the virtual module is stale if and only if the changed path
  ends with \<open>.mdx\<close> and the graph holds the virtual module. A notification for a path
  that does not end with \<open>.mdx\<close> leaves the server as it was. In every case the hook
  returns the modules it was given and touches no other node of the graph.
\<close>

theorem handleHotUpdate_invalidates_selectively:
  assumes "\<forall>node. moduleGraph server (resolvedVirtualModuleId virtualModuleId) = Some node \<longrightarrow>
             \<not> stale node"
  shows "fst (handleHotUpdate server file modules) = modules \<and>
         ((\<exists>node. moduleGraph (snd (handleHotUpdate server file modules))
                    (resolvedVirtualModuleId virtualModuleId) = Some node \<and> stale node) \<longleftrightarrow>
          (endsWith file ''.mdx'' \<and>
           (\<exists>node. moduleGraph server (resolvedVirtualModuleId virtualModuleId) = Some node))) \<and>
         (\<not> endsWith file ''.mdx'' \<longrightarrow> snd (handleHotUpdate server file modules) = server) \<and>
         (\<forall>ident. ident \<noteq> resolvedVirtualModuleId virtualModuleId \<longrightarrow>
            moduleGraph (snd (handleHotUpdate server file modules)) ident = moduleGraph server ident)"
  using assms
  by (auto simp: handleHotUpdate_def getModuleById_def invalidateModule_def
           split: option.splits)

theorem handleHotUpdate_invalidates_selectively_witness:
  "moduleGraph demo_server (resolvedVirtualModuleId virtualModuleId) = Some \<lparr> stale = False \<rparr> \<and>
   endsWith ''posts/a.mdx'' ''.mdx'' \<and>
   \<not> endsWith ''vite.config.ts'' ''.mdx'' \<and>
   (\<exists>node. moduleGraph (snd (handleHotUpdate demo_server ''posts/a.mdx'' ([] :: nat list)))
              (resolvedVirtualModuleId virtualModuleId) = Some node \<and> stale node) \<and>
   snd (handleHotUpdate demo_server ''vite.config.ts'' ([] :: nat list)) = demo_server"
proof -
  have g: "moduleGraph demo_server (resolvedVirtualModuleId virtualModuleId) = Some \<lparr> stale = False \<rparr>"
    by (simp add: demo_server_def resolvedVirtualModuleId_def virtualModuleId_def)
  then have fresh: "\<forall>node. moduleGraph demo_server (resolvedVirtualModuleId virtualModuleId) = Some node \<longrightarrow>
             \<not> stale node"
    by simp
  have e1: "endsWith ''posts/a.mdx'' ''.mdx''" by (simp add: endsWith_def)
  have e2: "\<not> endsWith ''vite.config.ts'' ''.mdx''" by (simp add: endsWith_def)
  from handleHotUpdate_invalidates_selectively [OF fresh, of "''posts/a.mdx''" "[] :: nat list"] e1 g
  have a: "\<exists>node. moduleGraph (snd (handleHotUpdate demo_server ''posts/a.mdx'' ([] :: nat list)))
              (resolvedVirtualModuleId virtualModuleId) = Some node \<and> stale node"
    by blast
  from handleHotUpdate_invalidates_selectively [OF fresh, of "''vite.config.ts''" "[] :: nat list"] e2
  have b: "snd (handleHotUpdate demo_server ''vite.config.ts'' ([] :: nat list)) = demo_server"
    by blast
  from g e1 e2 a b show ?thesis by (intro conjI)
qed

subsection \<open>The declaration file\<close>

lemma demo_declaration_file:
  "configResolved demo_lib True None [posts, pages] ''/app'' Map.empty
     ''/app/frontmatter-collection.d.ts'' =
   Some (''// This file is auto-generated. Do not edit manually.'' @ newline @
         ''declare module '' @ [CHR 0x22] @ ''virtual:frontmatter-collection'' @ [CHR 0x22] @
         '' {'' @ newline @
         ''export const posts: { rank: number; filePath: string; }[];'' @ newline @
         ''}'' @ newline)"
  by (simp add: configResolved_def demo_lib_def posts_def pages_def ambientDeclarationsString_def)

text \<open>
  C9. Running \<^verbatim>\<open>configResolved\<close> a second time with the same options, collections and
  root leaves the store of files as the first run left it. When declarations are generated,
  the path written and the text written are the same for every state of the store, so the
  two runs write identical contents. (zod-to-ts and \<^verbatim>\<open>path.join\<close> are functions of
  their arguments in the model.)
\<close>

theorem declaration_emission_idempotent:
  "configResolved lib generateDTS typesPath collections root
     (configResolved lib generateDTS typesPath collections root files) =
   configResolved lib generateDTS typesPath collections root files \<and>
   (\<exists>p text. \<forall>files'. configResolved lib True typesPath collections root files' = files'(p \<mapsto> text))"
  by (auto simp: configResolved_def Let_def)

subsection \<open>The \<^verbatim>\<open>filter\<close> option\<close>

lemma collectLoop_filter_irrelevant:
  "collectLoop lib debug (c\<lparr>filter_fn := x\<rparr>) files entries fx = collectLoop lib debug c files entries fx"
  by (cases debug; induction files arbitrary: entries fx; simp split: sum.splits option.splits add: Let_def)

lemma filter_fn_never_consulted:
  "collectFrontmatterEntries lib debug (c\<lparr>filter_fn := x\<rparr>) fx = collectFrontmatterEntries lib debug c fx"
  by (simp add: collectFrontmatterEntries_def collectLoop_filter_irrelevant Let_def
           split: prod.splits sum.splits)

text \<open>
  C1 does not hold of the source: \<^verbatim>\<open>collectFrontmatterEntries\<close> never reads the
  \<^verbatim>\<open>filter\<close> option, which the type of the configuration and the README document as
  filtering the collection. The collection \<open>posts\<close> has the filter \<open>demo_published\<close>;
  its compiled output keeps the entry of \<open>posts/c.mdx\<close>, which the filter rejects.
\<close>

theorem filter_option_not_applied:
  "filter_fn posts = Some demo_published \<and>
   fst (collectFrontmatterEntries demo_lib False posts []) = Inr [post_c, post_a, post_d] \<and>
   \<not> demo_published post_c"
  by (simp add: posts_compiled) (simp add: posts_def demo_published_def post_c_def obj_get_def)

subsection \<open>The patterns given to the matcher\<close>

lemma collectLoop_effects_extend:
  "\<exists>fx'. snd (collectLoop lib debug c files entries fx) = fx @ fx'"
proof (induction files arbitrary: entries fx)
  case Nil
  show ?case by simp
next
  case (Cons path files)
  have ext: "\<exists>fx'. snd (collectLoop lib debug c files es (fx @ x)) = fx @ fx'" for es x
    using Cons.IH[of es "fx @ x"] by auto
  show ?case
  proof (cases "readFrontmatter lib path")
    case (Inl err)
    then show ?thesis by simp
  next
    case (Inr fm)
    let ?dbg = "if debug then [ConsoleLogDebug path fm] else []"
    show ?thesis
    proof (cases "contract c")
      case None
      then have "schema c = None" "parseFrontMatter c = None"
        by (auto simp: contract_def split: option.splits)
      with Inr ext[of entries "[ReadFileSync path] @ ?dbg"] show ?thesis
        by (simp add: Let_def)
    next
      case (Some f)
      show ?thesis
      proof (cases "f fm")
        case (Inl err)
        with collectLoop_step[OF Some Inr, of debug files entries fx]
          ext[of entries "ReadFileSync path # ?dbg @
                 [ConsoleError (parseErrorText path) (errorArgument err)]"]
        show ?thesis by simp
      next
        case (Inr entry)
        with collectLoop_step[OF Some \<open>readFrontmatter lib path = Inr fm\<close>, of debug files entries fx]
          ext[of "entries @ [entry]" "ReadFileSync path # ?dbg"]
        show ?thesis by simp
      qed
    qed
  qed
qed

lemma matcher_call:
  assumes "\<not> (schema c = None \<and> parseFrontMatter c = None)"
  shows "\<exists>fx'. snd (collectFrontmatterEntries lib debug c fx) =
           fx @ GlobSync (globsafe (include_glob c)) (ignore c) # fx'"
proof -
  let ?files = "globSync lib (globsafe (include_glob c)) (ignore c)"
  let ?g = "GlobSync (globsafe (include_glob c)) (ignore c)"
  obtain r fx1 where loop: "collectLoop lib debug c ?files [] (fx @ [?g]) = (r, fx1)"
    by (cases "collectLoop lib debug c ?files [] (fx @ [?g])") auto
  from collectLoop_effects_extend[of lib debug c ?files "[]" "fx @ [?g]"] loop
  obtain fx' where "fx1 = fx @ ?g # fx'" by auto
  with loop assms show ?thesis
    by (cases r) (auto simp: collectFrontmatterEntries_def Let_def)
qed

text \<open>
  C8 does not hold of the source for the ignore patterns: line 148 passes
  \<^verbatim>\<open>globsafe(collection.include)\<close> but \<^verbatim>\<open>collection.ignore\<close> as it is. The
  collection \<open>posts\<close> writes both patterns with backslashes; the matcher receives the
  include pattern with slashes and the ignore pattern unchanged.
\<close>

theorem ignore_pattern_not_normalized:
  "include_glob posts = ''posts'' @ [CHR 0x5C] @ ''*.mdx'' \<and>
   ignore posts = Some (IgnoreString (''posts'' @ [CHR 0x5C] @ ''drafts'' @ [CHR 0x5C] @ ''**'')) \<and>
   hd (snd (collectFrontmatterEntries demo_lib False posts [])) =
     GlobSync ''posts/*.mdx''
       (Some (IgnoreString (''posts'' @ [CHR 0x5C] @ ''drafts'' @ [CHR 0x5C] @ ''**''))) \<and>
   globsafe (''posts'' @ [CHR 0x5C] @ ''drafts'' @ [CHR 0x5C] @ ''**'') = ''posts/drafts/**''"
  by (simp add: posts_compiled) (simp add: posts_def globsafe_def)

end
